theory Spec2Isabelle
  imports Complex_Main "HOL-Library.AList" "HOL-Library.Sublist"
begin

section \<open>Python values and the operations the converter applies to them\<close>

text \<open>
  The converter (\<^verbatim>\<open>converter_core.py\<close>; \<^verbatim>\<open>converter.py\<close> holds the same class
  plus a terminal menu) keeps everything it handles as plain Python data decoded from
  JSON: \<^verbatim>\<open>None\<close>, booleans, numbers, strings, lists and dictionaries with string
  keys. A number is an \<^verbatim>\<open>int\<close> or a finite \<^verbatim>\<open>float\<close>, read as the real it denotes, or
  one of the floats \<^verbatim>\<open>inf\<close>, \<^verbatim>\<open>-inf\<close> and \<^verbatim>\<open>nan\<close>. A dictionary is an association list
  whose first binding of a key is the one that counts.
\<close>

datatype pynum = Fin real | PosInf | NegInf | NaN

datatype pyval =
    PNone
  | PBool bool
  | PNum pynum
  | PStr string
  | PList "pyval list"
  | PDict "(string \<times> pyval) list"

datatype py_exception =
    OSError
  | JSONDecodeError
  | UnicodeDecodeError
  | RequestException
  | AttributeError
  | TypeError
  | KeyError
  | ValueError
  | OverflowError

text \<open>Truth value of a Python object, as \<^verbatim>\<open>if x:\<close> and \<^verbatim>\<open>not x\<close> take it.\<close>

fun truthy :: "pyval \<Rightarrow> bool" where
  "truthy PNone = False"
| "truthy (PBool b) = b"
| "truthy (PNum n) = (n \<noteq> Fin 0)"
| "truthy (PStr s) = (s \<noteq> [])"
| "truthy (PList xs) = (xs \<noteq> [])"
| "truthy (PDict kvs) = (kvs \<noteq> [])"

text \<open>\<^verbatim>\<open>d.get(k, default)\<close>: only a dictionary has the method.\<close>

fun dict_get :: "pyval \<Rightarrow> string \<Rightarrow> pyval \<Rightarrow> py_exception + pyval" where
  "dict_get (PDict kvs) k d = Inr (case map_of kvs k of None \<Rightarrow> d | Some v \<Rightarrow> v)"
| "dict_get _ k d = Inl AttributeError"

text \<open>
  \<^verbatim>\<open>k in c\<close> for a string \<^verbatim>\<open>k\<close>: key membership in a dictionary, element
  membership in a list, substring test in a string, \<^verbatim>\<open>TypeError\<close> elsewhere.
\<close>

fun substring :: "string \<Rightarrow> string \<Rightarrow> bool" where
  "substring s [] = (s = [])"
| "substring s (c # cs) = (prefix s (c # cs) \<or> substring s cs)"

fun contains :: "pyval \<Rightarrow> string \<Rightarrow> py_exception + bool" where
  "contains (PDict kvs) k = Inr (map_of kvs k \<noteq> None)"
| "contains (PList xs) k = Inr (PStr k \<in> set xs)"
| "contains (PStr s) k = Inr (substring k s)"
| "contains _ k = Inl TypeError"

text \<open>\<^verbatim>\<open>c[k]\<close> for a string \<^verbatim>\<open>k\<close>.\<close>

fun getitem :: "pyval \<Rightarrow> string \<Rightarrow> py_exception + pyval" where
  "getitem (PDict kvs) k = (case map_of kvs k of None \<Rightarrow> Inl KeyError | Some v \<Rightarrow> Inr v)"
| "getitem _ k = Inl TypeError"

text \<open>\<^verbatim>\<open>d[k] = v\<close> on a dictionary.\<close>

fun setitem :: "pyval \<Rightarrow> string \<Rightarrow> pyval \<Rightarrow> py_exception + pyval" where
  "setitem (PDict kvs) k v = Inr (PDict (AList.update k v kvs))"
| "setitem _ k v = Inl TypeError"

section \<open>The world outside the process\<close>

text \<open>
  The remote service, the clock and the \<^verbatim>\<open>json\<close> module are not part of the
  repository. They are parameters of every operation: \<open>http_get w n url\<close> is the outcome
  of the \<open>n\<close>-th request of the run (\<^verbatim>\<open>requests.get\<close>, \<^verbatim>\<open>raise_for_status\<close> and
  \<^verbatim>\<open>response.json()\<close> together), \<open>now_isoformat w n\<close> the \<open>n\<close>-th reading of
  \<^verbatim>\<open>datetime.now().isoformat()\<close>, \<open>json_load w bs\<close> what \<^verbatim>\<open>json.load\<close> makes of a
  file holding the bytes \<open>bs\<close>, and \<open>json_dump w v\<close> the bytes \<^verbatim>\<open>json.dump(v, f, indent=2)\<close>
  writes. The arithmetic of floats belongs to the interpreter as well: \<open>float_times w x y\<close>
  is what \<^verbatim>\<open>x * y\<close> evaluates to for a float \<open>x\<close> and a number \<open>y\<close>, that is the product
  rounded to a double, an infinity, \<^verbatim>\<open>nan\<close>, or \<^verbatim>\<open>OverflowError\<close> when \<open>y\<close> is an
  \<^verbatim>\<open>int\<close> too large to become a float.
\<close>

record world =
  http_get :: "nat \<Rightarrow> string \<Rightarrow> py_exception + pyval"
  now_isoformat :: "nat \<Rightarrow> string"
  json_load :: "string \<Rightarrow> py_exception + pyval"
  json_dump :: "pyval \<Rightarrow> string"
  float_times :: "pynum \<Rightarrow> pynum \<Rightarrow> py_exception + pynum"

text \<open>
  \<^verbatim>\<open>amount * rate\<close> with a float \<^verbatim>\<open>amount\<close>: \<^verbatim>\<open>True\<close> and \<^verbatim>\<open>False\<close> count as 1 and 0,
  and nothing but a number can be multiplied by a float.
\<close>

fun float_mul :: "world \<Rightarrow> pynum \<Rightarrow> pyval \<Rightarrow> py_exception + pynum" where
  "float_mul w a (PNum r) = float_times w a r"
| "float_mul w a (PBool b) = float_times w a (Fin (if b then 1 else 0))"
| "float_mul w a _ = Inl TypeError"

text \<open>
  The file \<^verbatim>\<open>conversion_history.json\<close>: whether \<^verbatim>\<open>os.path.exists\<close> finds it, whether
  opening it for reading and for writing succeeds, and the bytes it holds.
\<close>

record disk_file =
  present :: bool
  readable :: bool
  writable :: bool
  bytes :: string

section \<open>The converter\<close>

text \<open>
  The fields of \<^verbatim>\<open>CurrencyConverter\<close>, together with the file its \<^verbatim>\<open>history_file\<close>
  names, the URLs requested so far and the number of clock readings so far.
\<close>

record converter =
  available_currencies :: pyval
  history :: pyval
  history_file :: disk_file
  requests_made :: "string list"
  clock_reads :: nat

definition base_url :: string where
  "base_url = ''https://api.exchangerate.host''"

definition empty_history :: pyval where
  "empty_history = PDict [(''conversions'', PList [])]"

text \<open>
  \<^verbatim>\<open>_load_history\<close>: the handler catches \<^verbatim>\<open>json.JSONDecodeError\<close> and \<^verbatim>\<open>IOError\<close>
  (that is, \<^verbatim>\<open>OSError\<close>) and nothing else.
\<close>

definition load_history :: "world \<Rightarrow> disk_file \<Rightarrow> py_exception + pyval" where
  "load_history w f =
     (if present f then
        (case (if readable f then json_load w (bytes f) else Inl OSError) of
           Inr v \<Rightarrow> Inr v
         | Inl e \<Rightarrow> if e = JSONDecodeError \<or> e = OSError then Inr empty_history else Inl e)
      else Inr empty_history)"

text \<open>\<^verbatim>\<open>_save_history\<close>: a failure to open the file for writing is only reported.\<close>

definition save_history :: "world \<Rightarrow> converter \<Rightarrow> converter" where
  "save_history w c =
     (if writable (history_file c)
      then c\<lparr>history_file :=
               (history_file c)\<lparr>present := True, bytes := json_dump w (history c)\<rparr>\<rparr>
      else c)"

text \<open>\<^verbatim>\<open>__init__\<close>.\<close>

definition init :: "world \<Rightarrow> disk_file \<Rightarrow> py_exception + converter" where
  "init w f =
     (case load_history w f of
        Inl e \<Rightarrow> Inl e
      | Inr h \<Rightarrow> Inr \<lparr>available_currencies = PNone, history = h, history_file = f,
                     requests_made = [], clock_reads = 0\<rparr>)"

definition request :: "world \<Rightarrow> converter \<Rightarrow> string \<Rightarrow> (py_exception + pyval) \<times> converter" where
  "request w c url =
     (http_get w (length (requests_made c)) url, c\<lparr>requests_made := requests_made c @ [url]\<rparr>)"

definition symbols_url :: string where
  "symbols_url = base_url @ ''/symbols''"

definition get_available_currencies ::
  "world \<Rightarrow> converter \<Rightarrow> (py_exception + pyval) \<times> converter" where
  "get_available_currencies w c =
     (if truthy (available_currencies c) then (Inr (available_currencies c), c)
      else
        (case request w c symbols_url of
           (Inl e, c1) \<Rightarrow> (if e = RequestException then Inr PNone else Inl e, c1)
         | (Inr data, c1) \<Rightarrow>
             (case dict_get data ''success'' (PBool False) of
                Inl e \<Rightarrow> (Inl e, c1)
              | Inr s \<Rightarrow>
                  if \<not> truthy s then (Inr PNone, c1)
                  else
                    (case contains data ''symbols'' of
                       Inl e \<Rightarrow> (Inl e, c1)
                     | Inr False \<Rightarrow> (Inr PNone, c1)
                     | Inr True \<Rightarrow>
                         (case getitem data ''symbols'' of
                            Inl e \<Rightarrow> (Inl e, c1)
                          | Inr v \<Rightarrow> (Inr v, c1\<lparr>available_currencies := v\<rparr>))))))"

definition validate_currency ::
  "world \<Rightarrow> converter \<Rightarrow> string \<Rightarrow> (py_exception + bool) \<times> converter" where
  "validate_currency w c currency_code =
     (case get_available_currencies w c of
        (Inl e, c1) \<Rightarrow> (Inl e, c1)
      | (Inr currencies, c1) \<Rightarrow>
          if \<not> truthy currencies then (Inr False, c1)
          else (contains currencies currency_code, c1))"

definition rate_url :: "string \<Rightarrow> string \<Rightarrow> string" where
  "rate_url base_currency target_currency =
     base_url @ ''/latest?base='' @ base_currency @ ''&symbols='' @ target_currency"

definition get_exchange_rate ::
  "world \<Rightarrow> converter \<Rightarrow> string \<Rightarrow> string \<Rightarrow> (py_exception + pyval) \<times> converter" where
  "get_exchange_rate w c base_currency target_currency =
     (case request w c (rate_url base_currency target_currency) of
        (Inl e, c1) \<Rightarrow> (if e = RequestException then Inr PNone else Inl e, c1)
      | (Inr data, c1) \<Rightarrow>
          (case dict_get data ''success'' (PBool True) of
             Inl e \<Rightarrow> (Inl e, c1)
           | Inr s \<Rightarrow>
               if \<not> truthy s then (Inr PNone, c1)
               else
                 (case contains data ''rates'' of
                    Inl e \<Rightarrow> (Inl e, c1)
                  | Inr False \<Rightarrow> (Inr PNone, c1)
                  | Inr True \<Rightarrow>
                      (case getitem data ''rates'' of
                         Inl e \<Rightarrow> (Inl e, c1)
                       | Inr rates \<Rightarrow>
                           (case contains rates target_currency of
                              Inl e \<Rightarrow> (Inl e, c1)
                            | Inr False \<Rightarrow> (Inr PNone, c1)
                            | Inr True \<Rightarrow> (getitem rates target_currency, c1))))))"

text \<open>The dictionary \<^verbatim>\<open>convert_currency\<close> builds for one conversion.\<close>

definition conversion_record ::
  "string \<Rightarrow> string \<Rightarrow> pynum \<Rightarrow> pyval \<Rightarrow> pyval \<Rightarrow> string \<Rightarrow> pyval" where
  "conversion_record b t a converted rate stamp =
     PDict [(''base'', PStr b), (''target'', PStr t), (''amount'', PNum a),
            (''converted'', converted), (''rate'', rate), (''timestamp'', PStr stamp)]"

text \<open>
  The three statements under \<^verbatim>\<open># Add to history\<close>: append, then keep the last ten when
  there are more than ten.
\<close>

definition add_to_history :: "pyval \<Rightarrow> pyval \<Rightarrow> py_exception + pyval" where
  "add_to_history h result =
     (case getitem h ''conversions'' of
        Inl e \<Rightarrow> Inl e
      | Inr (PList xs) \<Rightarrow>
          (let ys = xs @ [result]
           in setitem h ''conversions''
                (PList (if length ys > 10 then drop (length ys - 10) ys else ys)))
      | Inr _ \<Rightarrow> Inl AttributeError)"

text \<open>The list comprehension that collects the invalid targets.\<close>

fun invalid_targets ::
  "world \<Rightarrow> string list \<Rightarrow> converter \<Rightarrow> (py_exception + string list) \<times> converter" where
  "invalid_targets w [] c = (Inr [], c)"
| "invalid_targets w (t # ts) c =
     (case validate_currency w c t of
        (Inl e, c1) \<Rightarrow> (Inl e, c1)
      | (Inr ok, c1) \<Rightarrow>
          (case invalid_targets w ts c1 of
             (Inl e, c2) \<Rightarrow> (Inl e, c2)
           | (Inr bad, c2) \<Rightarrow> (Inr (if ok then bad else t # bad), c2)))"

definition tick :: "converter \<Rightarrow> converter" where
  "tick c = c\<lparr>clock_reads := Suc (clock_reads c)\<rparr>"

text \<open>The loop over the target currencies, with \<^verbatim>\<open>results\<close> as accumulator.\<close>

fun convert_loop ::
  "world \<Rightarrow> string \<Rightarrow> pynum \<Rightarrow> string list \<Rightarrow> pyval list \<Rightarrow> converter
     \<Rightarrow> (py_exception + pyval list) \<times> converter" where
  "convert_loop w b a [] results c = (Inr results, c)"
| "convert_loop w b a (t # ts) results c =
     (if b = t then
        convert_loop w b a ts
          (results @ [conversion_record b t a (PNum a) (PNum (Fin 1))
                        (now_isoformat w (clock_reads c))])
          (tick c)
      else
        (case get_exchange_rate w c b t of
           (Inl e, c1) \<Rightarrow> (Inl e, c1)
         | (Inr rate, c1) \<Rightarrow>
             if rate \<noteq> PNone then
               (case float_mul w a rate of
                  Inl e \<Rightarrow> (Inl e, c1)
                | Inr converted_amount \<Rightarrow>
                    (let result = conversion_record b t a (PNum converted_amount) rate
                                    (now_isoformat w (clock_reads c1));
                         c2 = tick c1
                     in case add_to_history (history c2) result of
                          Inl e \<Rightarrow> (Inl e, c2)
                        | Inr h \<Rightarrow>
                            convert_loop w b a ts (results @ [result])
                              (save_history w (c2\<lparr>history := h\<rparr>))))
             else convert_loop w b a ts results c1))"

definition convert_currency ::
  "world \<Rightarrow> converter \<Rightarrow> string \<Rightarrow> string list \<Rightarrow> pynum
     \<Rightarrow> (py_exception + pyval list) \<times> converter" where
  "convert_currency w c base_currency target_currencies amount =
     (case validate_currency w c base_currency of
        (Inl e, c1) \<Rightarrow> (Inl e, c1)
      | (Inr base_valid, c1) \<Rightarrow>
          if \<not> base_valid then (Inr [], c1)
          else
            (case invalid_targets w target_currencies c1 of
               (Inl e, c2) \<Rightarrow> (Inl e, c2)
             | (Inr invalid, c2) \<Rightarrow>
                 if invalid \<noteq> [] then
                   (let remaining = filter (\<lambda>t. t \<notin> set invalid) target_currencies
                    in if remaining = [] then (Inr [], c2)
                       else convert_loop w base_currency amount remaining [] c2)
                 else convert_loop w base_currency amount target_currencies [] c2))"

section \<open>Repeated appends\<close>

fun add_all :: "pyval \<Rightarrow> pyval list \<Rightarrow> py_exception + pyval" where
  "add_all h [] = Inr h"
| "add_all h (r # rs) =
     (case add_to_history h r of Inl e \<Rightarrow> Inl e | Inr h' \<Rightarrow> add_all h' rs)"

section \<open>Sample data\<close>

text \<open>
  A small world and a converter for the worked examples below: a service that lists
  four currencies, quotes USD to EUR at 0.9, quotes USD to JPY at 0 and answers nothing
  else; a clock that always reads the same instant; a \<^verbatim>\<open>json\<close> module that knows
  three files; and a multiplication that gives the exact product of two finite numbers
  (as doubles do for the products of the examples).
\<close>

definition sample_catalog :: pyval where
  "sample_catalog =
     PDict [(''USD'', PDict [(''description'', PStr ''United States Dollar'')]),
            (''EUR'', PDict [(''description'', PStr ''Euro'')]),
            (''GBP'', PDict [(''description'', PStr ''British Pound Sterling'')]),
            (''JPY'', PDict [(''description'', PStr ''Japanese Yen'')])]"

definition sample_http_get :: "nat \<Rightarrow> string \<Rightarrow> py_exception + pyval" where
  "sample_http_get n url =
     (if url = symbols_url
      then Inr (PDict [(''success'', PBool True), (''symbols'', sample_catalog)])
      else if url = rate_url ''USD'' ''EUR''
      then Inr (PDict [(''success'', PBool True), (''rates'', PDict [(''EUR'', PNum (Fin 0.9))])])
      else if url = rate_url ''USD'' ''JPY''
      then Inr (PDict [(''success'', PBool True), (''rates'', PDict [(''JPY'', PNum (Fin 0))])])
      else Inl RequestException)"

definition sample_record :: "nat \<Rightarrow> pyval" where
  "sample_record n =
     conversion_record ''USD'' ''EUR'' (Fin (real n)) (PNum (Fin (real n * 0.9))) (PNum (Fin 0.9))
       ''2024-01-01T00:00:00.000000''"

definition eleven_records :: "pyval list" where
  "eleven_records = map sample_record [1, 2, 3, 4, 5, 6, 7, 8, 9, 10, 11]"

definition sample_json_load :: "string \<Rightarrow> py_exception + pyval" where
  "sample_json_load bs =
     (if bs = [CHR 0xFF] then Inl UnicodeDecodeError
      else if bs = ''empty history'' then Inr empty_history
      else if bs = ''eleven records'' then Inr (PDict [(''conversions'', PList eleven_records)])
      else Inl JSONDecodeError)"

definition sample_json_dump :: "pyval \<Rightarrow> string" where
  "sample_json_dump v = (if v = empty_history then ''empty history'' else ''other'')"

definition sample_float_times :: "pynum \<Rightarrow> pynum \<Rightarrow> py_exception + pynum" where
  "sample_float_times x y =
     (case (x, y) of (Fin u, Fin v) \<Rightarrow> Inr (Fin (u * v)) | _ \<Rightarrow> Inr NaN)"

definition sample_world :: world where
  "sample_world =
     \<lparr>http_get = sample_http_get,
      now_isoformat = (\<lambda>n. ''2024-01-01T00:00:00.000000''),
      json_load = sample_json_load,
      json_dump = sample_json_dump,
      float_times = sample_float_times\<rparr>"

definition sample_file :: "string \<Rightarrow> disk_file" where
  "sample_file bs = \<lparr>present = True, readable = True, writable = True, bytes = bs\<rparr>"

definition sample_converter :: converter where
  "sample_converter =
     \<lparr>available_currencies = sample_catalog, history = empty_history,
      history_file = sample_file ''empty history'', requests_made = [], clock_reads = 0\<rparr>"

definition fresh_converter :: converter where
  "fresh_converter =
     \<lparr>available_currencies = PNone, history = empty_history,
      history_file = sample_file ''empty history'', requests_made = [], clock_reads = 0\<rparr>"

text \<open>The same world with the network down.\<close>

definition offline_world :: world where
  "offline_world = sample_world\<lparr>http_get := (\<lambda>n url. Inl RequestException)\<rparr>"

text \<open>What the specification asks of a rate: a positive real number.\<close>

definition positive_rate :: "pyval \<Rightarrow> bool" where
  "positive_rate v = (case v of PNum (Fin r) \<Rightarrow> 0 < r | _ \<Rightarrow> False)"

section \<open>The history never holds more than ten records\<close>

lemma getitem_Inr_dict:
  "getitem h k = Inr v \<Longrightarrow> \<exists>kvs. h = PDict kvs \<and> map_of kvs k = Some v"
  by (cases h) (auto split: option.splits)

lemma drop_last_ten:
  "drop (length (drop (length ys - 10) ys @ rs) - 10) (drop (length ys - 10) ys @ rs)
     = drop (length (ys @ rs) - 10) (ys @ rs)"
  by (cases "length ys \<le> 10") (auto simp: add.commute)

lemma add_to_history_conversions:
  assumes "getitem h ''conversions'' = Inr (PList xs)"
  shows "\<exists>h'. add_to_history h r = Inr h' \<and>
     getitem h' ''conversions'' = Inr (PList (drop (length (xs @ [r]) - 10) (xs @ [r])))"
proof -
  from assms obtain kvs where "h = PDict kvs" and "map_of kvs ''conversions'' = Some (PList xs)"
    using getitem_Inr_dict by blast
  then show ?thesis
    by (simp add: add_to_history_def update_conv' Let_def)
qed

lemma add_all_conversions:
  assumes "getitem h ''conversions'' = Inr (PList xs)"
  shows "\<exists>h'. add_all h rs = Inr h' \<and>
     getitem h' ''conversions'' =
       Inr (PList (if rs = [] then xs else drop (length (xs @ rs) - 10) (xs @ rs)))"
  using assms
proof (induction rs arbitrary: h xs)
  case Nil
  then show ?case by simp
next
  case (Cons r rs)
  let ?ys = "drop (length (xs @ [r]) - 10) (xs @ [r])"
  from add_to_history_conversions[OF Cons.prems, of r] obtain h1 where
    h1: "add_to_history h r = Inr h1" "getitem h1 ''conversions'' = Inr (PList ?ys)"
    by blast
  from Cons.IH[OF h1(2)] obtain h2 where
    h2: "add_all h1 rs = Inr h2"
     "getitem h2 ''conversions'' =
        Inr (PList (if rs = [] then ?ys else drop (length (?ys @ rs) - 10) (?ys @ rs)))"
    by blast
  have "add_all h (r # rs) = Inr h2"
    using h1 h2 by simp
  moreover have "getitem h2 ''conversions'' =
      Inr (PList (drop (length (xs @ r # rs) - 10) (xs @ r # rs)))"
  proof (cases "rs = []")
    case True
    then show ?thesis using h2(2) by simp
  next
    case False
    then show ?thesis using h2(2) drop_last_ten[of "xs @ [r]" rs] by simp
  qed
  ultimately show ?case by simp
qed

text \<open>
  C1. Start from a history whose \<^verbatim>\<open>"conversions"\<close> entry is the list \<open>xs\<close> and
  append the records \<open>rs\<close> one after the other, at least one. Every append succeeds, and
  afterwards the entry holds at most ten records: exactly the last ten of \<open>xs @ rs\<close>, in
  the order they were appended (all of them when there are fewer than ten), so the
  oldest records are the ones dropped. As \<open>rs\<close> is any non-empty list, this holds after
  each append of a run.
\<close>

theorem history_cap:
  assumes "getitem h ''conversions'' = Inr (PList xs)" and "rs \<noteq> []"
  shows "\<exists>h' ys. add_all h rs = Inr h' \<and> getitem h' ''conversions'' = Inr (PList ys) \<and>
           length ys \<le> 10 \<and> ys = drop (length (xs @ rs) - 10) (xs @ rs)"
  using add_all_conversions[OF assms(1), of rs] assms(2) by auto

theorem history_cap_witness:
  "getitem empty_history ''conversions'' = Inr (PList []) \<and> eleven_records \<noteq> [] \<and>
   (\<exists>h'. add_all empty_history eleven_records = Inr h' \<and>
      getitem h' ''conversions'' =
        Inr (PList (map sample_record [2, 3, 4, 5, 6, 7, 8, 9, 10, 11])))"
  using history_cap[of empty_history "[]" eleven_records]
  by (simp add: empty_history_def eleven_records_def)

section \<open>What each operation leaves alone\<close>

lemma get_exchange_rate_state:
  "snd (get_exchange_rate w c b t) = c\<lparr>requests_made := requests_made c @ [rate_url b t]\<rparr>"
  by (simp add: get_exchange_rate_def request_def split: sum.splits bool.splits)

lemma get_available_currencies_cached:
  "truthy (available_currencies c) \<Longrightarrow>
     get_available_currencies w c = (Inr (available_currencies c), c)"
  by (simp add: get_available_currencies_def)

lemma get_available_currencies_frame:
  assumes "get_available_currencies w c = (r, c1)"
  shows "history c1 = history c \<and> history_file c1 = history_file c \<and>
         clock_reads c1 = clock_reads c \<and>
         (requests_made c1 = requests_made c \<or>
          requests_made c1 = requests_made c @ [symbols_url])"
  using assms
  by (auto simp: get_available_currencies_def request_def
           split: if_splits sum.splits bool.splits)

lemma get_available_currencies_truthy:
  assumes "get_available_currencies w c = (Inr v, c1)" and "truthy v"
  shows "available_currencies c1 = v"
  using assms
  by (auto simp: get_available_currencies_def request_def
           split: if_splits sum.splits bool.splits)

lemma validate_currency_frame:
  assumes "validate_currency w c code = (r, c1)"
  shows "history c1 = history c \<and> history_file c1 = history_file c \<and>
         clock_reads c1 = clock_reads c \<and>
         (requests_made c1 = requests_made c \<or>
          requests_made c1 = requests_made c @ [symbols_url])"
proof -
  obtain r0 where "get_available_currencies w c = (r0, c1)"
    using assms by (auto simp: validate_currency_def split: prod.splits sum.splits if_splits)
  then show ?thesis by (rule get_available_currencies_frame)
qed

lemma validate_currency_True:
  assumes "validate_currency w c code = (Inr True, c1)"
  shows "truthy (available_currencies c1) \<and> contains (available_currencies c1) code = Inr True"
proof -
  from assms obtain v where g: "get_available_currencies w c = (Inr v, c1)"
    and t: "truthy v" and k: "contains v code = Inr True"
    by (auto simp: validate_currency_def split: prod.splits sum.splits if_splits)
  from get_available_currencies_truthy[OF g t] t k show ?thesis by simp
qed

lemma validate_currency_cached:
  "truthy (available_currencies c) \<Longrightarrow>
     validate_currency w c code = (contains (available_currencies c) code, c)"
  by (simp add: validate_currency_def get_available_currencies_cached)


lemma symbols_url_not_rate_url: "symbols_url \<noteq> rate_url b t"
  by (simp add: symbols_url_def rate_url_def base_url_def)

section \<open>The sample world, evaluated\<close>

lemma sample_fetch:
  "get_available_currencies sample_world fresh_converter =
     (Inr sample_catalog,
      fresh_converter\<lparr>requests_made := [symbols_url], available_currencies := sample_catalog\<rparr>)"
  by (simp add: get_available_currencies_def request_def fresh_converter_def sample_world_def
        sample_http_get_def sample_catalog_def)

lemma sample_validate:
  "validate_currency sample_world fresh_converter ''USD'' =
     (Inr True,
      fresh_converter\<lparr>requests_made := [symbols_url], available_currencies := sample_catalog\<rparr>)"
  by (simp add: validate_currency_def sample_fetch) (simp add: sample_catalog_def)


lemma offline_fetch:
  "get_available_currencies offline_world fresh_converter =
     (Inr PNone, fresh_converter\<lparr>requests_made := [symbols_url]\<rparr>)"
  by (simp add: get_available_currencies_def request_def fresh_converter_def offline_world_def)

lemma sample_rate_GBP:
  "get_exchange_rate sample_world sample_converter ''USD'' ''GBP'' =
     (Inr PNone, sample_converter\<lparr>requests_made := [rate_url ''USD'' ''GBP'']\<rparr>)"
  by (simp add: get_exchange_rate_def request_def sample_converter_def sample_world_def
        sample_http_get_def symbols_url_def rate_url_def base_url_def)

lemma sample_rate_EUR:
  "get_exchange_rate sample_world (sample_converter\<lparr>requests_made := rs\<rparr>) ''USD'' ''EUR'' =
     (Inr (PNum (Fin 0.9)), sample_converter\<lparr>requests_made := rs @ [rate_url ''USD'' ''EUR'']\<rparr>)"
  by (simp add: get_exchange_rate_def request_def sample_converter_def sample_world_def
        sample_http_get_def symbols_url_def rate_url_def base_url_def)

lemma sample_rate_EUR0:
  "get_exchange_rate sample_world sample_converter ''USD'' ''EUR'' =
     (Inr (PNum (Fin 0.9)), sample_converter\<lparr>requests_made := [rate_url ''USD'' ''EUR'']\<rparr>)"
  using sample_rate_EUR[of "[]"] by (simp add: sample_converter_def)

lemma sample_response_EUR:
  "http_get sample_world (length (requests_made sample_converter)) (rate_url ''USD'' ''EUR'') =
     Inr (PDict [(''success'', PBool True), (''rates'', PDict [(''EUR'', PNum (Fin 0.9))])])"
  by (simp add: sample_world_def sample_http_get_def symbols_url_def rate_url_def base_url_def)

lemma sample_response_GBP:
  "http_get sample_world (length (requests_made sample_converter)) (rate_url ''USD'' ''GBP'') =
     Inl RequestException"
  by (simp add: sample_world_def sample_http_get_def symbols_url_def rate_url_def base_url_def)

section \<open>Which conversions reach the history\<close>




section \<open>Converting a currency to itself\<close>

text \<open>
  C3. When the base code is valid, converting any amount \<open>a\<close> from the base to the base
  returns exactly one record. Read back field by field, its base and target are the
  base, its amount and its converted amount are both \<open>a\<close>, and its rate is 1. The only
  request the whole call can have made is the one for the list of currencies (made by
  the validation when the list was not cached yet): the rate of the pair is not among
  the requests of the call.
\<close>

theorem same_currency_conversion:
  assumes "validate_currency w c b = (Inr True, c1)"
  shows "\<exists>r c'. convert_currency w c b [b] a = (Inr [r], c') \<and>
           getitem r ''base'' = Inr (PStr b) \<and> getitem r ''target'' = Inr (PStr b) \<and>
           getitem r ''amount'' = Inr (PNum a) \<and> getitem r ''converted'' = Inr (PNum a) \<and>
           getitem r ''rate'' = Inr (PNum (Fin 1)) \<and>
           getitem r ''timestamp'' = Inr (PStr (now_isoformat w (clock_reads c))) \<and>
           (requests_made c' = requests_made c \<or>
            requests_made c' = requests_made c @ [symbols_url]) \<and>
           rate_url b b \<notin> set (drop (length (requests_made c)) (requests_made c'))"
proof -
  let ?r = "conversion_record b b a (PNum a) (PNum (Fin 1)) (now_isoformat w (clock_reads c1))"
  from validate_currency_True[OF assms]
  have again: "validate_currency w c1 b = (Inr True, c1)"
    by (simp add: validate_currency_cached)
  have call: "convert_currency w c b [b] a = (Inr [?r], tick c1)"
    by (simp add: convert_currency_def assms again)
  have fields: "getitem ?r ''base'' = Inr (PStr b)" "getitem ?r ''target'' = Inr (PStr b)"
    "getitem ?r ''amount'' = Inr (PNum a)" "getitem ?r ''converted'' = Inr (PNum a)"
    "getitem ?r ''rate'' = Inr (PNum (Fin 1))"
    "getitem ?r ''timestamp'' = Inr (PStr (now_isoformat w (clock_reads c1)))"
    by (simp_all add: conversion_record_def)
  have clock: "clock_reads c1 = clock_reads c"
    using validate_currency_frame[OF assms] by simp
  have reqs: "requests_made (tick c1) = requests_made c \<or>
          requests_made (tick c1) = requests_made c @ [symbols_url]"
    using validate_currency_frame[OF assms] by (simp add: tick_def)
  then have none: "rate_url b b \<notin> set (drop (length (requests_made c)) (requests_made (tick c1)))"
    using symbols_url_not_rate_url[of b b] by auto
  from call fields clock reqs none show ?thesis
    by (intro exI[of _ ?r] exI[of _ "tick c1"]) simp
qed

theorem same_currency_conversion_witness:
  "validate_currency sample_world fresh_converter ''USD'' =
     (Inr True,
      fresh_converter\<lparr>requests_made := [symbols_url], available_currencies := sample_catalog\<rparr>) \<and>
   (\<exists>r. convert_currency sample_world fresh_converter ''USD'' [''USD''] (Fin 100) =
          (Inr [r],
           fresh_converter\<lparr>requests_made := [symbols_url],
             available_currencies := sample_catalog, clock_reads := 1\<rparr>) \<and>
        getitem r ''amount'' = Inr (PNum (Fin 100)) \<and>
        getitem r ''converted'' = Inr (PNum (Fin 100)) \<and>
        getitem r ''rate'' = Inr (PNum (Fin 1)))"
proof -
  have h: "validate_currency sample_world fresh_converter ''USD'' =
     (Inr True,
      fresh_converter\<lparr>requests_made := [symbols_url], available_currencies := sample_catalog\<rparr>)"
    by (rule sample_validate)
  have t: "convert_currency sample_world fresh_converter ''USD'' [''USD''] (Fin 100) =
     (Inr [conversion_record ''USD'' ''USD'' (Fin 100) (PNum (Fin 100)) (PNum (Fin 1))
             ''2024-01-01T00:00:00.000000''],
      fresh_converter\<lparr>requests_made := [symbols_url],
        available_currencies := sample_catalog, clock_reads := 1\<rparr>)"
    by (simp add: convert_currency_def h)
       (simp add: validate_currency_cached sample_catalog_def tick_def fresh_converter_def
          sample_world_def)
  from same_currency_conversion[OF h, of "Fin 100"] obtain r c' where
    "convert_currency sample_world fresh_converter ''USD'' [''USD''] (Fin 100) = (Inr [r], c')"
    "getitem r ''amount'' = Inr (PNum (Fin 100))"
    "getitem r ''converted'' = Inr (PNum (Fin 100))"
    "getitem r ''rate'' = Inr (PNum (Fin 1))"
    by blast
  with h t show ?thesis by auto
qed

section \<open>Validation\<close>

text \<open>
  C4. When the catalog obtained through \<^verbatim>\<open>get_available_currencies\<close> is the dictionary
  \<open>m\<close>, \<^verbatim>\<open>validate_currency\<close> answers whether the code is one of its keys. When no
  catalog is obtained (the call yields \<^verbatim>\<open>None\<close>), it answers \<^verbatim>\<open>False\<close> for every
  code; in particular when nothing is cached and the request fails.
\<close>

theorem validate_currency_iff_key:
  "(get_available_currencies w c = (Inr (PDict m), c1) \<longrightarrow>
      validate_currency w c code = (Inr (code \<in> fst ` set m), c1)) \<and>
   (get_available_currencies w c = (Inr PNone, c1) \<longrightarrow>
      validate_currency w c code = (Inr False, c1)) \<and>
   (\<not> truthy (available_currencies c) \<and>
    http_get w (length (requests_made c)) symbols_url = Inl RequestException \<longrightarrow>
      fst (validate_currency w c code) = Inr False)"
proof (intro conjI impI)
  assume "get_available_currencies w c = (Inr (PDict m), c1)"
  then show "validate_currency w c code = (Inr (code \<in> fst ` set m), c1)"
    by (cases "m = []") (simp_all add: validate_currency_def map_of_eq_None_iff)
next
  assume "get_available_currencies w c = (Inr PNone, c1)"
  then show "validate_currency w c code = (Inr False, c1)"
    by (simp add: validate_currency_def)
next
  assume "\<not> truthy (available_currencies c) \<and>
    http_get w (length (requests_made c)) symbols_url = Inl RequestException"
  then show "fst (validate_currency w c code) = Inr False"
    by (simp add: validate_currency_def get_available_currencies_def request_def)
qed

theorem validate_currency_iff_key_witness:
  "get_available_currencies sample_world fresh_converter =
     (Inr sample_catalog,
      fresh_converter\<lparr>requests_made := [symbols_url], available_currencies := sample_catalog\<rparr>) \<and>
   fst (validate_currency sample_world fresh_converter ''EUR'') = Inr True \<and>
   fst (validate_currency sample_world fresh_converter ''XXX'') = Inr False \<and>
   get_available_currencies offline_world fresh_converter =
     (Inr PNone, fresh_converter\<lparr>requests_made := [symbols_url]\<rparr>) \<and>
   fst (validate_currency offline_world fresh_converter ''EUR'') = Inr False"
proof -
  note fetched = sample_fetch[unfolded sample_catalog_def]
  from validate_currency_iff_key[of sample_world fresh_converter _ _ "''EUR''"] fetched
  have 1: "fst (validate_currency sample_world fresh_converter ''EUR'') = Inr True"
    by simp
  from validate_currency_iff_key[of sample_world fresh_converter _ _ "''XXX''"] fetched
  have 2: "fst (validate_currency sample_world fresh_converter ''XXX'') = Inr False"
    by simp
  from validate_currency_iff_key[of offline_world fresh_converter _ _ "''EUR''"] offline_fetch
  have 3: "fst (validate_currency offline_world fresh_converter ''EUR'') = Inr False"
    by simp
  from 1 2 3 sample_fetch offline_fetch show ?thesis by simp
qed

section \<open>Loading the history\<close>

text \<open>
  A missing file, a file that cannot be opened and a file whose text is not JSON all give
  the empty history.
\<close>

lemma load_history_handled:
  "\<not> present f \<or> \<not> readable f \<or> json_load w (bytes f) = Inl JSONDecodeError \<Longrightarrow>
     load_history w f = Inr empty_history"
  by (auto simp: load_history_def)

text \<open>
  C5. The claim also covers a file whose bytes are not text at all. For the single byte
  \<^verbatim>\<open>0xFF\<close>, \<^verbatim>\<open>json.load\<close> raises \<^verbatim>\<open>UnicodeDecodeError\<close> while reading; the handler
  of \<^verbatim>\<open>_load_history\<close> does not catch it, so the call and the constructor raise it.
\<close>

theorem load_history_undecodable_file:
  "load_history sample_world (sample_file [CHR 0xFF]) = Inl UnicodeDecodeError \<and>
   init sample_world (sample_file [CHR 0xFF]) = Inl UnicodeDecodeError"
  by (simp add: init_def load_history_def sample_world_def sample_file_def sample_json_load_def)

text \<open>
  C9. A file that can be read and whose content parses to a value \<open>v\<close> with the list
  \<open>recs\<close> under \<^verbatim>\<open>"conversions"\<close> is loaded as \<open>v\<close> itself: the new converter's
  history holds all of \<open>recs\<close>, in stored order, however many they are. The example
  loads eleven records.
\<close>

theorem load_history_keeps_every_record:
  assumes "present f" and "readable f" and "json_load w (bytes f) = Inr v"
    and "getitem v ''conversions'' = Inr (PList recs)"
  shows "load_history w f = Inr v \<and>
         (\<exists>c. init w f = Inr c \<and> history c = v \<and>
              getitem (history c) ''conversions'' = Inr (PList recs))"
  using assms by (simp add: load_history_def init_def)

theorem load_history_keeps_every_record_witness:
  "present (sample_file ''eleven records'') \<and> readable (sample_file ''eleven records'') \<and>
   json_load sample_world (bytes (sample_file ''eleven records'')) =
     Inr (PDict [(''conversions'', PList eleven_records)]) \<and>
   getitem (PDict [(''conversions'', PList eleven_records)]) ''conversions'' =
     Inr (PList eleven_records) \<and>
   length eleven_records = 11 \<and>
   (\<exists>c. init sample_world (sample_file ''eleven records'') = Inr c \<and>
        getitem (history c) ''conversions'' = Inr (PList eleven_records))"
proof -
  have p: "present (sample_file ''eleven records'')" and r: "readable (sample_file ''eleven records'')"
    by (simp_all add: sample_file_def)
  have l: "json_load sample_world (bytes (sample_file ''eleven records'')) =
     Inr (PDict [(''conversions'', PList eleven_records)])"
    by (simp add: sample_file_def sample_world_def sample_json_load_def)
  have g: "getitem (PDict [(''conversions'', PList eleven_records)]) ''conversions'' =
     Inr (PList eleven_records)"
    by simp
  have n: "length eleven_records = 11"
    by (simp add: eleven_records_def)
  from load_history_keeps_every_record[OF p r l g] p r l g n show ?thesis
    by blast
qed

section \<open>Saving, then loading\<close>

text \<open>
  What the converter itself contributes to a save followed by a load: \<^verbatim>\<open>_save_history\<close>
  hands the whole history to \<^verbatim>\<open>json.dump\<close> and replaces the content of the file by
  what it writes, and \<^verbatim>\<open>_load_history\<close> returns whatever \<^verbatim>\<open>json.load\<close> makes of that
  content. Whether the value read equals the value written is then a property of the
  \<^verbatim>\<open>json\<close> module alone (how it prints and parses floats, among others), which is not
  part of the converter.
\<close>

lemma save_then_load_plumbing:
  assumes "writable (history_file c)" and "readable (history_file c)"
  shows "bytes (history_file (save_history w c)) = json_dump w (history c) \<and>
         load_history w (history_file (save_history w c)) =
           (case json_load w (json_dump w (history c)) of
              Inr v \<Rightarrow> Inr v
            | Inl e \<Rightarrow> if e = JSONDecodeError \<or> e = OSError then Inr empty_history else Inl e)"
  using assms by (simp add: load_history_def save_history_def)

section \<open>Fetching a rate\<close>

text \<open>
  The sample service quotes USD to JPY at 0. \<^verbatim>\<open>get_exchange_rate\<close> returns that value
  as it stands, and it is not a positive number.
\<close>

theorem zero_rate_is_returned:
  "fst (get_exchange_rate sample_world sample_converter ''USD'' ''JPY'') = Inr (PNum (Fin 0)) \<and>
   PNum (Fin 0) \<noteq> PNone \<and> \<not> positive_rate (PNum (Fin 0))"
  by (simp add: get_exchange_rate_def request_def sample_converter_def sample_world_def
        sample_http_get_def symbols_url_def rate_url_def base_url_def positive_rate_def)

text \<open>
  C6, as amended. A value other than \<^verbatim>\<open>None\<close> returned by \<^verbatim>\<open>get_exchange_rate\<close> is
  exactly the entry stored under the target code in the \<^verbatim>\<open>"rates"\<close> object of the
  response; nothing checks its sign or type. A request that fails with
  \<^verbatim>\<open>RequestException\<close>, a response object whose \<^verbatim>\<open>"success"\<close> entry is present and
  false, a response object without \<^verbatim>\<open>"rates"\<close>, and one whose \<^verbatim>\<open>"rates"\<close> object lacks
  the target code each give \<^verbatim>\<open>None\<close>.
\<close>

theorem get_exchange_rate_outcome:
  "(fst (get_exchange_rate w c b t) = Inr v \<and> v \<noteq> PNone \<longrightarrow>
      (\<exists>data rates. http_get w (length (requests_made c)) (rate_url b t) = Inr data \<and>
         getitem data ''rates'' = Inr rates \<and> getitem rates t = Inr v)) \<and>
   (http_get w (length (requests_made c)) (rate_url b t) = Inl RequestException \<longrightarrow>
      fst (get_exchange_rate w c b t) = Inr PNone) \<and>
   (http_get w (length (requests_made c)) (rate_url b t) = Inr (PDict kvs) \<and>
    map_of kvs ''success'' = Some s \<and> \<not> truthy s \<longrightarrow>
      fst (get_exchange_rate w c b t) = Inr PNone) \<and>
   (http_get w (length (requests_made c)) (rate_url b t) = Inr (PDict kvs) \<and>
    map_of kvs ''rates'' = None \<longrightarrow>
      fst (get_exchange_rate w c b t) = Inr PNone) \<and>
   (http_get w (length (requests_made c)) (rate_url b t) = Inr (PDict kvs) \<and>
    map_of kvs ''rates'' = Some (PDict m) \<and> map_of m t = None \<longrightarrow>
      fst (get_exchange_rate w c b t) = Inr PNone)"
proof (intro conjI impI)
  assume "fst (get_exchange_rate w c b t) = Inr v \<and> v \<noteq> PNone"
  then show "\<exists>data rates. http_get w (length (requests_made c)) (rate_url b t) = Inr data \<and>
         getitem data ''rates'' = Inr rates \<and> getitem rates t = Inr v"
    by (auto simp: get_exchange_rate_def request_def
          split: sum.splits if_splits bool.splits)
next
  assume "http_get w (length (requests_made c)) (rate_url b t) = Inl RequestException"
  then show "fst (get_exchange_rate w c b t) = Inr PNone"
    by (simp add: get_exchange_rate_def request_def)
next
  assume "http_get w (length (requests_made c)) (rate_url b t) = Inr (PDict kvs) \<and>
    map_of kvs ''success'' = Some s \<and> \<not> truthy s"
  then show "fst (get_exchange_rate w c b t) = Inr PNone"
    by (simp add: get_exchange_rate_def request_def)
next
  assume "http_get w (length (requests_made c)) (rate_url b t) = Inr (PDict kvs) \<and>
    map_of kvs ''rates'' = None"
  then show "fst (get_exchange_rate w c b t) = Inr PNone"
    by (simp add: get_exchange_rate_def request_def split: option.splits)
next
  assume "http_get w (length (requests_made c)) (rate_url b t) = Inr (PDict kvs) \<and>
    map_of kvs ''rates'' = Some (PDict m) \<and> map_of m t = None"
  then show "fst (get_exchange_rate w c b t) = Inr PNone"
    by (simp add: get_exchange_rate_def request_def split: option.splits)
qed

theorem get_exchange_rate_outcome_witness:
  "fst (get_exchange_rate sample_world sample_converter ''USD'' ''EUR'') = Inr (PNum (Fin 0.9)) \<and>
   PNum (Fin 0.9) \<noteq> PNone \<and>
   (\<exists>data rates.
      http_get sample_world (length (requests_made sample_converter)) (rate_url ''USD'' ''EUR'')
        = Inr data \<and>
      getitem data ''rates'' = Inr rates \<and> getitem rates ''EUR'' = Inr (PNum (Fin 0.9))) \<and>
   http_get sample_world (length (requests_made sample_converter)) (rate_url ''USD'' ''GBP'') =
     Inl RequestException \<and>
   fst (get_exchange_rate sample_world sample_converter ''USD'' ''GBP'') = Inr PNone"
proof -
  have e: "fst (get_exchange_rate sample_world sample_converter ''USD'' ''EUR'') = Inr (PNum (Fin 0.9))"
    by (simp add: sample_rate_EUR0)
  from get_exchange_rate_outcome[of sample_world sample_converter "''USD''" "''EUR''" "PNum (Fin 0.9)"] e
  have 1: "\<exists>data rates.
      http_get sample_world (length (requests_made sample_converter)) (rate_url ''USD'' ''EUR'')
        = Inr data \<and>
      getitem data ''rates'' = Inr rates \<and> getitem rates ''EUR'' = Inr (PNum (Fin 0.9))"
    by simp
  from get_exchange_rate_outcome[of sample_world sample_converter "''USD''" "''GBP''"]
    sample_response_GBP
  have 2: "fst (get_exchange_rate sample_world sample_converter ''USD'' ''GBP'') = Inr PNone"
    by simp
  from e 1 2 sample_response_GBP show ?thesis by simp
qed

section \<open>One target of the loop\<close>

text \<open>
  C8. When the rate fetch for a target \<open>t\<close> other than the base yields \<^verbatim>\<open>None\<close>, the
  loop goes on to the remaining targets \<open>ts\<close>, in their order, with the results
  unchanged: no record is produced for \<open>t\<close>. History and file are as before the fetch.
  In the example the fetch for GBP fails and EUR, which follows it, is still converted.
\<close>

theorem rate_failure_is_local:
  assumes "b \<noteq> t" and "get_exchange_rate w c b t = (Inr PNone, c1)"
  shows "convert_loop w b a (t # ts) results c = convert_loop w b a ts results c1 \<and>
         history c1 = history c \<and> history_file c1 = history_file c"
  using assms get_exchange_rate_state[of w c b t] by simp

theorem rate_failure_is_local_witness:
  "''USD'' \<noteq> ''GBP'' \<and>
   get_exchange_rate sample_world sample_converter ''USD'' ''GBP'' =
     (Inr PNone, sample_converter\<lparr>requests_made := [rate_url ''USD'' ''GBP'']\<rparr>) \<and>
   convert_loop sample_world ''USD'' (Fin 100) [''GBP'', ''EUR''] [] sample_converter =
     convert_loop sample_world ''USD'' (Fin 100) [''EUR''] []
       (sample_converter\<lparr>requests_made := [rate_url ''USD'' ''GBP'']\<rparr>) \<and>
   fst (convert_loop sample_world ''USD'' (Fin 100) [''GBP'', ''EUR''] [] sample_converter) =
     Inr [conversion_record ''USD'' ''EUR'' (Fin 100) (PNum (Fin 90)) (PNum (Fin 0.9)) ''2024-01-01T00:00:00.000000'']"
proof -
  have d: "''USD'' \<noteq> ''GBP''" by simp
  note step = rate_failure_is_local[OF d sample_rate_GBP, of "Fin 100" "[''EUR'']" "[]"]
  have "fst (convert_loop sample_world ''USD'' (Fin 100) [''EUR''] []
       (sample_converter\<lparr>requests_made := [rate_url ''USD'' ''GBP'']\<rparr>)) =
     Inr [conversion_record ''USD'' ''EUR'' (Fin 100) (PNum (Fin 90)) (PNum (Fin 0.9)) ''2024-01-01T00:00:00.000000'']"
    by (simp add: sample_rate_EUR)
       (simp add: sample_converter_def tick_def add_to_history_def empty_history_def Let_def
          sample_world_def sample_float_times_def)
  with step d sample_rate_GBP show ?thesis by simp
qed

text \<open>
  C10. A target equal to the base adds its record to the results and to nothing else: the
  loop continues from a converter with the same history, the same file and the same
  requests made.
\<close>

theorem same_currency_frame:
  "\<exists>c'. convert_loop w b a (b # ts) results c =
          convert_loop w b a ts
            (results @ [conversion_record b b a (PNum a) (PNum (Fin 1))
                          (now_isoformat w (clock_reads c))]) c' \<and>
        history c' = history c \<and> history_file c' = history_file c \<and>
        requests_made c' = requests_made c"
  by (rule exI[of _ "tick c"]) (simp add: tick_def)

end
